theory Spec2Isabelle
  imports Main
begin

section \<open>The REST facade of server/main.py\<close>

text \<open>
  The module is a FastAPI application whose handlers validate a request, forward it to
  one shared \<open>Memory\<close> client and map the client's exceptions to HTTP errors. The
  embedding below follows the module handler by handler. The state of the process is
  passed explicitly; a handler returns its outcome together with the new state.
\<close>

subsection \<open>Python values\<close>

text \<open>
  The values that travel through the facade are JSON-like Python values: \<open>None\<close>,
  booleans, integers, strings, lists and string-keyed dicts. A dict is an association
  list in insertion order, as Python keeps it. Floating-point numbers are left out.
\<close>

datatype json =
    JNull
  | JBool bool
  | JInt int
  | JStr string
  | JList "json list"
  | JDict "(string \<times> json) list"

type_synonym kwargs = "(string \<times> json) list"

text \<open>
  An exception object derived from Python's \<open>Exception\<close>, the class named by every
  \<open>except\<close> clause of the module. It is known to the facade only through \<open>str(e)\<close>.
\<close>

datatype exn = Exception (str: string)

subsection \<open>Request models\<close>

record Message =
  role :: string
  content :: string

record MemoryCreate =
  messages :: "Message list"
  user_id :: "string option"
  agent_id :: "string option"
  run_id :: "string option"
  metadata :: "kwargs option"

record SearchRequest =
  query :: string
  user_id :: "string option"
  run_id :: "string option"
  agent_id :: "string option"
  filters :: "kwargs option"

text \<open>An optional string as a Python value: \<open>None\<close> or the string.\<close>

definition opt_str :: "string option \<Rightarrow> json" where
  "opt_str x = (case x of None \<Rightarrow> JNull | Some v \<Rightarrow> JStr v)"

definition opt_dict :: "kwargs option \<Rightarrow> json" where
  "opt_dict x = (case x of None \<Rightarrow> JNull | Some d \<Rightarrow> JDict d)"

text \<open>\<open>model_dump()\<close> of each pydantic model: the fields in declaration order.\<close>

definition model_dump_Message :: "Message \<Rightarrow> json" where
  "model_dump_Message m = JDict [(''role'', JStr (role m)), (''content'', JStr (content m))]"

definition model_dump_MemoryCreate :: "MemoryCreate \<Rightarrow> kwargs" where
  "model_dump_MemoryCreate mc =
     [(''messages'', JList (map model_dump_Message (messages mc))),
      (''user_id'', opt_str (MemoryCreate.user_id mc)),
      (''agent_id'', opt_str (MemoryCreate.agent_id mc)),
      (''run_id'', opt_str (MemoryCreate.run_id mc)),
      (''metadata'', opt_dict (metadata mc))]"

definition model_dump_SearchRequest :: "SearchRequest \<Rightarrow> kwargs" where
  "model_dump_SearchRequest sr =
     [(''query'', JStr (query sr)),
      (''user_id'', opt_str (SearchRequest.user_id sr)),
      (''run_id'', opt_str (SearchRequest.run_id sr)),
      (''agent_id'', opt_str (SearchRequest.agent_id sr)),
      (''filters'', opt_dict (filters sr))]"

text \<open>
  Python truthiness of an optional string: \<open>None\<close> and the empty string are falsy.
  \<open>any\<close> is true when some element is truthy.
\<close>

definition truthy :: "string option \<Rightarrow> bool" where
  "truthy x = (case x of None \<Rightarrow> False | Some v \<Rightarrow> v \<noteq> [])"

fun any_py :: "string option list \<Rightarrow> bool" where
  "any_py [] = False"
| "any_py (x # xs) = (truthy x \<or> any_py xs)"

text \<open>
  The dict comprehension over \<open>locals().items()\<close> in \<open>get_all_memories\<close> and
  \<open>delete_all_memories\<close>: the parameters in their order, the \<open>None\<close> ones dropped.
\<close>

definition locals_not_None :: "string option \<Rightarrow> string option \<Rightarrow> string option \<Rightarrow> kwargs" where
  "locals_not_None user_id' run_id' agent_id' =
     filter (\<lambda>(k, v). v \<noteq> JNull)
       [(''user_id'', opt_str user_id'), (''run_id'', opt_str run_id'), (''agent_id'', opt_str agent_id')]"

subsection \<open>The Memory client\<close>

text \<open>
  The methods of the client that the facade calls, each with the arguments it is given.
\<close>

datatype call =
    Add "json list" kwargs
  | Get_all kwargs
  | Get string
  | Search string kwargs
  | Update string kwargs
  | History string
  | Delete string
  | Delete_all kwargs
  | Reset

text \<open>
  The imported code is a parameter. Class \<open>Memory\<close> comes from \<open>mem0.memory.main\<close>: its
  constructor \<open>from_config\<close> returns a client or raises, and a method call on a client
  returns a value or raises, and leaves the client in a new state. \<open>JSONResponse\<close> comes
  from FastAPI and renders its content when it is constructed: \<open>render_failure v\<close> is the
  exception that rendering the content \<open>v\<close> raises, if there is one.
\<close>

record 'c library =
  from_config :: "kwargs \<Rightarrow> exn + 'c"
  dispatch :: "'c \<Rightarrow> call \<Rightarrow> (exn + json) \<times> 'c"
  render_failure :: "json \<Rightarrow> exn option"

text \<open>
  The state of the process: the global \<open>MEMORY_INSTANCE\<close>, the trace of the method calls
  made on the client so far, and the messages given to \<open>logging.exception\<close>.
\<close>

record 'c server =
  MEMORY_INSTANCE :: 'c
  calls :: "call list"
  logged :: "string list"

definition invoke :: "'c library \<Rightarrow> call \<Rightarrow> 'c server \<Rightarrow> (exn + json) \<times> 'c server" where
  "invoke lib k s =
     (case dispatch lib (MEMORY_INSTANCE s) k of
        (r, c') \<Rightarrow> (r, s\<lparr>MEMORY_INSTANCE := c', calls := calls s @ [k]\<rparr>))"

definition logging_exception :: "string \<Rightarrow> 'c server \<Rightarrow> 'c server" where
  "logging_exception msg s = s\<lparr>logged := logged s @ [msg]\<rparr>"

subsection \<open>Outcomes of a handler\<close>

text \<open>
  A handler returns a value or raises. \<open>Body v\<close> is a plain value handed to FastAPI,
  which sends it as the JSON body; \<open>JSONResponse v\<close> and \<open>RedirectResponse url\<close> are
  the response objects the module builds itself, the first with the rendering of \<open>v\<close>
  as its body. \<open>HTTPException\<close> carries the status code and the detail; \<open>Uncaught e\<close> is
  any other exception leaving the handler.
\<close>

datatype returned =
    Body json
  | JSONResponse json
  | RedirectResponse string

datatype raised =
    HTTPException (status_code: nat) (detail: string)
  | Uncaught exn

type_synonym outcome = "raised + returned"

definition message :: "string \<Rightarrow> outcome" where
  "message m = Inr (Body (JDict [(''message'', JStr m)]))"

definition identifier_required :: outcome where
  "identifier_required = Inl (HTTPException 400 ''At least one identifier is required.'')"

subsection \<open>The endpoints\<close>

text \<open>
  Each handler with a \<open>try\<close> block makes one client call. When the call returns, the
  handler returns; when it raises \<open>e\<close>, the handler logs and raises
  \<open>HTTPException(status_code=500, detail=str(e))\<close>.
\<close>

definition set_config :: "'c library \<Rightarrow> kwargs \<Rightarrow> 'c server \<Rightarrow> outcome \<times> 'c server" where
  "set_config lib config s =
     (case from_config lib config of
        Inl e \<Rightarrow> (Inl (Uncaught e), s)
      | Inr c \<Rightarrow> (message ''Configuration set successfully'', s\<lparr>MEMORY_INSTANCE := c\<rparr>))"

text \<open>
  In \<open>add_memory\<close> the \<open>JSONResponse\<close> is built inside the \<open>try\<close> block, so an
  exception raised by rendering the client's result is logged and mapped to status 500
  like an exception of the client call itself.
\<close>

definition add_memory :: "'c library \<Rightarrow> MemoryCreate \<Rightarrow> 'c server \<Rightarrow> outcome \<times> 'c server" where
  "add_memory lib memory_create s =
     (if \<not> any_py [MemoryCreate.user_id memory_create, MemoryCreate.agent_id memory_create,
                     MemoryCreate.run_id memory_create]
      then (identifier_required, s)
      else
        let params = filter (\<lambda>(k, v). k \<noteq> ''messages'' \<and> v \<noteq> JNull)
                       (model_dump_MemoryCreate memory_create);
            msgs = map model_dump_Message (messages memory_create)
        in case invoke lib (Add msgs params) s of
             (Inr r, s') \<Rightarrow>
               (case render_failure lib r of
                  None \<Rightarrow> (Inr (JSONResponse r), s')
                | Some e \<Rightarrow>
                    (Inl (HTTPException 500 (str e)), logging_exception ''Add memory failed'' s'))
           | (Inl e, s') \<Rightarrow>
               (Inl (HTTPException 500 (str e)), logging_exception ''Add memory failed'' s'))"

definition get_all_memories ::
  "'c library \<Rightarrow> string option \<Rightarrow> string option \<Rightarrow> string option \<Rightarrow> 'c server \<Rightarrow> outcome \<times> 'c server" where
  "get_all_memories lib user_id' run_id' agent_id' s =
     (if \<not> any_py [user_id', run_id', agent_id']
      then (identifier_required, s)
      else
        case invoke lib (Get_all (locals_not_None user_id' run_id' agent_id')) s of
          (Inr r, s') \<Rightarrow> (Inr (Body r), s')
        | (Inl e, s') \<Rightarrow>
            (Inl (HTTPException 500 (str e)), logging_exception ''Get all memories failed'' s'))"

definition get_memory :: "'c library \<Rightarrow> string \<Rightarrow> 'c server \<Rightarrow> outcome \<times> 'c server" where
  "get_memory lib memory_id s =
     (case invoke lib (Get memory_id) s of
        (Inr r, s') \<Rightarrow> (Inr (Body r), s')
      | (Inl e, s') \<Rightarrow>
          (Inl (HTTPException 500 (str e)), logging_exception ''Get memory failed'' s'))"

definition search_memories :: "'c library \<Rightarrow> SearchRequest \<Rightarrow> 'c server \<Rightarrow> outcome \<times> 'c server" where
  "search_memories lib search_req s =
     (let kwargs = filter (\<lambda>(k, v). k \<noteq> ''query'' \<and> v \<noteq> JNull)
                     (model_dump_SearchRequest search_req)
      in case invoke lib (Search (query search_req) kwargs) s of
           (Inr r, s') \<Rightarrow> (Inr (Body r), s')
         | (Inl e, s') \<Rightarrow>
             (Inl (HTTPException 500 (str e)), logging_exception ''Search failed'' s'))"

definition update_memory :: "'c library \<Rightarrow> string \<Rightarrow> kwargs \<Rightarrow> 'c server \<Rightarrow> outcome \<times> 'c server" where
  "update_memory lib memory_id updated_memory s =
     (case invoke lib (Update memory_id updated_memory) s of
        (Inr r, s') \<Rightarrow> (Inr (Body r), s')
      | (Inl e, s') \<Rightarrow>
          (Inl (HTTPException 500 (str e)), logging_exception ''Update memory failed'' s'))"

definition memory_history :: "'c library \<Rightarrow> string \<Rightarrow> 'c server \<Rightarrow> outcome \<times> 'c server" where
  "memory_history lib memory_id s =
     (case invoke lib (History memory_id) s of
        (Inr r, s') \<Rightarrow> (Inr (Body r), s')
      | (Inl e, s') \<Rightarrow>
          (Inl (HTTPException 500 (str e)), logging_exception ''Memory history failed'' s'))"

definition delete_memory :: "'c library \<Rightarrow> string \<Rightarrow> 'c server \<Rightarrow> outcome \<times> 'c server" where
  "delete_memory lib memory_id s =
     (case invoke lib (Delete memory_id) s of
        (Inr r, s') \<Rightarrow> (message ''Memory deleted successfully'', s')
      | (Inl e, s') \<Rightarrow>
          (Inl (HTTPException 500 (str e)), logging_exception ''Delete memory failed'' s'))"

definition delete_all_memories ::
  "'c library \<Rightarrow> string option \<Rightarrow> string option \<Rightarrow> string option \<Rightarrow> 'c server \<Rightarrow> outcome \<times> 'c server" where
  "delete_all_memories lib user_id' run_id' agent_id' s =
     (if \<not> any_py [user_id', run_id', agent_id']
      then (identifier_required, s)
      else
        case invoke lib (Delete_all (locals_not_None user_id' run_id' agent_id')) s of
          (Inr r, s') \<Rightarrow> (message ''All relevant memories deleted'', s')
        | (Inl e, s') \<Rightarrow>
            (Inl (HTTPException 500 (str e)), logging_exception ''Delete all memories failed'' s'))"

definition reset_memory :: "'c library \<Rightarrow> 'c server \<Rightarrow> outcome \<times> 'c server" where
  "reset_memory lib s =
     (case invoke lib Reset s of
        (Inr r, s') \<Rightarrow> (message ''All memories reset'', s')
      | (Inl e, s') \<Rightarrow>
          (Inl (HTTPException 500 (str e)), logging_exception ''Reset failed'' s'))"

definition home :: "'c server \<Rightarrow> outcome \<times> 'c server" where
  "home s = (Inr (RedirectResponse ''/docs''), s)"

subsection \<open>Routing\<close>

text \<open>The routes registered by the decorators, with the arguments FastAPI extracts.\<close>

datatype request =
    POST_configure kwargs
  | POST_memories MemoryCreate
  | GET_memories "string option" "string option" "string option"
  | GET_memory string
  | POST_search SearchRequest
  | PUT_memory string kwargs
  | GET_history string
  | DELETE_memory string
  | DELETE_memories "string option" "string option" "string option"
  | POST_reset
  | GET_root

fun app :: "'c library \<Rightarrow> request \<Rightarrow> 'c server \<Rightarrow> outcome \<times> 'c server" where
  "app lib (POST_configure config) s = set_config lib config s"
| "app lib (POST_memories memory_create) s = add_memory lib memory_create s"
| "app lib (GET_memories user_id' run_id' agent_id') s = get_all_memories lib user_id' run_id' agent_id' s"
| "app lib (GET_memory memory_id) s = get_memory lib memory_id s"
| "app lib (POST_search search_req) s = search_memories lib search_req s"
| "app lib (PUT_memory memory_id updated_memory) s = update_memory lib memory_id updated_memory s"
| "app lib (GET_history memory_id) s = memory_history lib memory_id s"
| "app lib (DELETE_memory memory_id) s = delete_memory lib memory_id s"
| "app lib (DELETE_memories user_id' run_id' agent_id') s = delete_all_memories lib user_id' run_id' agent_id' s"
| "app lib POST_reset s = reset_memory lib s"
| "app lib GET_root s = home s"

subsection \<open>Clients for the examples\<close>

text \<open>
  An in-memory stand-in for class \<open>Memory\<close>, used to run the handlers on concrete
  requests. A client is the list of the messages stored so far. An empty configuration is
  refused; reading or deleting a single memory of an empty store raises.
\<close>

definition demo_from_config :: "kwargs \<Rightarrow> exn + json list" where
  "demo_from_config config =
     (if config = [] then Inl (Exception ''empty configuration'') else Inr [])"

fun demo_method :: "json list \<Rightarrow> call \<Rightarrow> (exn + json) \<times> json list" where
  "demo_method c (Add msgs kw) = (Inr (JDict [(''results'', JList msgs)]), c @ msgs)"
| "demo_method c (Get_all kw) = (Inr (JList c), c)"
| "demo_method c (Get i) =
     (if c = [] then (Inl (Exception ''no such memory''), c) else (Inr (hd c), c))"
| "demo_method c (Search q kw) = (Inr (JList c), c)"
| "demo_method c (Update i d) =
     (if c = [] then (Inl (Exception ''no such memory''), c) else (Inr (JDict d), JDict d # tl c))"
| "demo_method c (History i) =
     (if c = [] then (Inl (Exception ''no such memory''), c) else (Inr (JList c), c))"
| "demo_method c (Delete i) =
     (if c = [] then (Inl (Exception ''no such memory''), c) else (Inr (JStr i), tl c))"
| "demo_method c (Delete_all kw) = (Inr (JInt (int (length c))), [])"
| "demo_method c Reset = (Inr JNull, [])"

text \<open>
  The stand-in for the rendering of \<open>JSONResponse\<close>: \<open>json.dumps\<close> recurses once for
  each level of nesting of lists and dicts and raises \<open>RecursionError\<close> when the content
  is nested as deep as the interpreter's recursion limit, 1000 by default.
\<close>

fun depth :: "json \<Rightarrow> nat" where
  "depth (JList xs) = Suc (foldr max (map depth xs) 0)"
| "depth (JDict kvs) = Suc (foldr max (map (\<lambda>(k, v). depth v) kvs) 0)"
| "depth v = 0"

definition demo_render_failure :: "json \<Rightarrow> exn option" where
  "demo_render_failure v =
     (if 1000 \<le> depth v
      then Some (Exception ''maximum recursion depth exceeded while encoding a JSON object'')
      else None)"

definition demo_Memory :: "json list library" where
  "demo_Memory = \<lparr>from_config = demo_from_config, dispatch = demo_method,
                   render_failure = demo_render_failure\<rparr>"

definition demo_server :: "json list \<Rightarrow> json list server" where
  "demo_server c = \<lparr>MEMORY_INSTANCE = c, calls = [], logged = []\<rparr>"

text \<open>A client whose every method call raises.\<close>

definition failing_Memory :: "json list library" where
  "failing_Memory = \<lparr>from_config = demo_from_config,
                      dispatch = (\<lambda>c k. (Inl (Exception ''connection refused''), c)),
                      render_failure = demo_render_failure\<rparr>"

text \<open>
  A client whose every method call returns an empty list wrapped in \<open>n\<close> further lists.
\<close>

primrec nest :: "nat \<Rightarrow> json" where
  "nest 0 = JList []"
| "nest (Suc n) = JList [nest n]"

definition nesting_Memory :: "json list library" where
  "nesting_Memory = \<lparr>from_config = demo_from_config,
                      dispatch = (\<lambda>c k. (Inr (nest 1000), c)),
                      render_failure = demo_render_failure\<rparr>"

section \<open>The client call of each handler\<close>

lemma invoke_eq:
  "invoke lib k s = (fst (dispatch lib (MEMORY_INSTANCE s) k),
     s\<lparr>MEMORY_INSTANCE := snd (dispatch lib (MEMORY_INSTANCE s) k), calls := calls s @ [k]\<rparr>)"
  by (simp add: invoke_def split: prod.splits)

lemma calls_logging_exception: "calls (logging_exception msg s) = calls s"
  by (simp add: logging_exception_def)

lemma locals_not_None_cases:
  "locals_not_None u r a =
     (case u of None \<Rightarrow> [] | Some x \<Rightarrow> [(''user_id'', JStr x)]) @
     (case r of None \<Rightarrow> [] | Some x \<Rightarrow> [(''run_id'', JStr x)]) @
     (case a of None \<Rightarrow> [] | Some x \<Rightarrow> [(''agent_id'', JStr x)])"
  by (simp add: locals_not_None_def opt_str_def split: option.splits)

text \<open>The one client call of each handler, and what the handler does when it raises.\<close>

lemma add_memory_call:
  assumes "any_py [MemoryCreate.user_id mc, MemoryCreate.agent_id mc, MemoryCreate.run_id mc]"
  defines "k \<equiv> Add (map model_dump_Message (messages mc))
                 (filter (\<lambda>(k, v). k \<noteq> ''messages'' \<and> v \<noteq> JNull) (model_dump_MemoryCreate mc))"
  shows "calls (snd (add_memory lib mc s)) = calls s @ [k]"
    and "fst (dispatch lib (MEMORY_INSTANCE s) k) = Inl e \<Longrightarrow>
         fst (add_memory lib mc s) = Inl (HTTPException 500 (str e))"
    and "fst (dispatch lib (MEMORY_INSTANCE s) k) = Inr r \<Longrightarrow> render_failure lib r = None \<Longrightarrow>
         fst (add_memory lib mc s) = Inr (JSONResponse r)"
    and "fst (dispatch lib (MEMORY_INSTANCE s) k) = Inr r \<Longrightarrow> render_failure lib r = Some e \<Longrightarrow>
         fst (add_memory lib mc s) = Inl (HTTPException 500 (str e))"
  using assms(1) unfolding k_def
  by (simp_all add: add_memory_def Let_def invoke_eq calls_logging_exception
        split: sum.splits option.splits)

lemma add_memory_params:
  "filter (\<lambda>(k, v). k \<noteq> ''messages'' \<and> v \<noteq> JNull) (model_dump_MemoryCreate mc) =
     (case MemoryCreate.user_id mc of None \<Rightarrow> [] | Some v \<Rightarrow> [(''user_id'', JStr v)]) @
     (case MemoryCreate.agent_id mc of None \<Rightarrow> [] | Some v \<Rightarrow> [(''agent_id'', JStr v)]) @
     (case MemoryCreate.run_id mc of None \<Rightarrow> [] | Some v \<Rightarrow> [(''run_id'', JStr v)]) @
     (case metadata mc of None \<Rightarrow> [] | Some d \<Rightarrow> [(''metadata'', JDict d)])"
  by (simp add: model_dump_MemoryCreate_def opt_str_def opt_dict_def split: option.splits)

lemma search_memories_kwargs:
  "filter (\<lambda>(k, v). k \<noteq> ''query'' \<and> v \<noteq> JNull) (model_dump_SearchRequest sr) =
     (case SearchRequest.user_id sr of None \<Rightarrow> [] | Some v \<Rightarrow> [(''user_id'', JStr v)]) @
     (case SearchRequest.run_id sr of None \<Rightarrow> [] | Some v \<Rightarrow> [(''run_id'', JStr v)]) @
     (case SearchRequest.agent_id sr of None \<Rightarrow> [] | Some v \<Rightarrow> [(''agent_id'', JStr v)]) @
     (case filters sr of None \<Rightarrow> [] | Some d \<Rightarrow> [(''filters'', JDict d)])"
  by (simp add: model_dump_SearchRequest_def opt_str_def opt_dict_def split: option.splits)

lemma any_py_iff:
  "any_py [x, y, z] = (\<exists>v. v \<noteq> '''' \<and> Some v \<in> {x, y, z})"
  by (cases x; cases y; cases z) (auto simp: truthy_def)

lemma depth_nest: "depth (nest n) = Suc n"
  by (induction n) simp_all

lemma add_memory_refused:
  "\<not> any_py [MemoryCreate.user_id mc, MemoryCreate.agent_id mc, MemoryCreate.run_id mc] \<Longrightarrow>
   add_memory lib mc s = (identifier_required, s)"
  by (simp add: add_memory_def)

lemma get_all_memories_call:
  assumes "any_py [u, r, a]"
  shows "calls (snd (get_all_memories lib u r a s)) = calls s @ [Get_all (locals_not_None u r a)]"
    and "fst (dispatch lib (MEMORY_INSTANCE s) (Get_all (locals_not_None u r a))) = Inl e \<Longrightarrow>
         fst (get_all_memories lib u r a s) = Inl (HTTPException 500 (str e))"
  using assms
  by (simp_all add: get_all_memories_def invoke_eq calls_logging_exception split: sum.splits)

lemma get_all_memories_refused:
  "\<not> any_py [u, r, a] \<Longrightarrow> get_all_memories lib u r a s = (identifier_required, s)"
  by (simp add: get_all_memories_def)

lemma get_memory_call:
  shows "calls (snd (get_memory lib i s)) = calls s @ [Get i]"
    and "fst (dispatch lib (MEMORY_INSTANCE s) (Get i)) = Inl e \<Longrightarrow>
         fst (get_memory lib i s) = Inl (HTTPException 500 (str e))"
  by (simp_all add: get_memory_def invoke_eq calls_logging_exception split: sum.splits)

lemma search_memories_call:
  defines "k sr \<equiv> Search (query sr)
                 (filter (\<lambda>(k, v). k \<noteq> ''query'' \<and> v \<noteq> JNull) (model_dump_SearchRequest sr))"
  shows "calls (snd (search_memories lib sr s)) = calls s @ [k sr]"
    and "fst (dispatch lib (MEMORY_INSTANCE s) (k sr)) = Inl e \<Longrightarrow>
         fst (search_memories lib sr s) = Inl (HTTPException 500 (str e))"
    and "fst (dispatch lib (MEMORY_INSTANCE s) (k sr)) = Inr r \<Longrightarrow>
         fst (search_memories lib sr s) = Inr (Body r)"
  unfolding k_def
  by (simp_all add: search_memories_def Let_def invoke_eq calls_logging_exception split: sum.splits)

lemma update_memory_call:
  shows "calls (snd (update_memory lib i d s)) = calls s @ [Update i d]"
    and "fst (dispatch lib (MEMORY_INSTANCE s) (Update i d)) = Inl e \<Longrightarrow>
         fst (update_memory lib i d s) = Inl (HTTPException 500 (str e))"
  by (simp_all add: update_memory_def invoke_eq calls_logging_exception split: sum.splits)

lemma memory_history_call:
  shows "calls (snd (memory_history lib i s)) = calls s @ [History i]"
    and "fst (dispatch lib (MEMORY_INSTANCE s) (History i)) = Inl e \<Longrightarrow>
         fst (memory_history lib i s) = Inl (HTTPException 500 (str e))"
  by (simp_all add: memory_history_def invoke_eq calls_logging_exception split: sum.splits)

lemma delete_memory_call:
  shows "calls (snd (delete_memory lib i s)) = calls s @ [Delete i]"
    and "fst (dispatch lib (MEMORY_INSTANCE s) (Delete i)) = Inl e \<Longrightarrow>
         fst (delete_memory lib i s) = Inl (HTTPException 500 (str e))"
    and "fst (dispatch lib (MEMORY_INSTANCE s) (Delete i)) = Inr r \<Longrightarrow>
         fst (delete_memory lib i s) = message ''Memory deleted successfully''"
  by (simp_all add: delete_memory_def invoke_eq calls_logging_exception split: sum.splits)

lemma delete_all_memories_call:
  assumes "any_py [u, r, a]"
  shows "calls (snd (delete_all_memories lib u r a s)) = calls s @ [Delete_all (locals_not_None u r a)]"
    and "fst (dispatch lib (MEMORY_INSTANCE s) (Delete_all (locals_not_None u r a))) = Inl e \<Longrightarrow>
         fst (delete_all_memories lib u r a s) = Inl (HTTPException 500 (str e))"
    and "fst (dispatch lib (MEMORY_INSTANCE s) (Delete_all (locals_not_None u r a))) = Inr v \<Longrightarrow>
         fst (delete_all_memories lib u r a s) = message ''All relevant memories deleted''"
  using assms
  by (simp_all add: delete_all_memories_def invoke_eq calls_logging_exception split: sum.splits)

lemma delete_all_memories_refused:
  "\<not> any_py [u, r, a] \<Longrightarrow> delete_all_memories lib u r a s = (identifier_required, s)"
  by (simp add: delete_all_memories_def)

lemma reset_memory_call:
  shows "calls (snd (reset_memory lib s)) = calls s @ [Reset]"
    and "fst (dispatch lib (MEMORY_INSTANCE s) Reset) = Inl e \<Longrightarrow>
         fst (reset_memory lib s) = Inl (HTTPException 500 (str e))"
    and "fst (dispatch lib (MEMORY_INSTANCE s) Reset) = Inr r \<Longrightarrow>
         fst (reset_memory lib s) = message ''All memories reset''"
  by (simp_all add: reset_memory_def invoke_eq calls_logging_exception split: sum.splits)

section \<open>Properties of the endpoints\<close>

text \<open>
  C1: when \<open>user_id\<close>, \<open>agent_id\<close> and \<open>run_id\<close> are all absent, POST /memories,
  GET /memories and DELETE /memories raise \<open>HTTPException\<close> with status 400 and detail
  ``At least one identifier is required.''. The state after the request is the state before
  it: the trace of client calls has not grown, so the client was not called.
\<close>

theorem identifier_required_before_any_call:
  assumes "MemoryCreate.user_id mc = None \<and> MemoryCreate.agent_id mc = None \<and> MemoryCreate.run_id mc = None"
  shows "app lib (POST_memories mc) s =
           (Inl (HTTPException 400 ''At least one identifier is required.''), s)
       \<and> app lib (GET_memories None None None) s =
           (Inl (HTTPException 400 ''At least one identifier is required.''), s)
       \<and> app lib (DELETE_memories None None None) s =
           (Inl (HTTPException 400 ''At least one identifier is required.''), s)"
  using assms
  by (simp add: add_memory_def get_all_memories_def delete_all_memories_def truthy_def
        identifier_required_def)

theorem identifier_required_before_any_call_witness:
  "MemoryCreate.user_id \<lparr>messages = [\<lparr>role = ''user'', content = ''hi''\<rparr>],
      MemoryCreate.user_id = None, MemoryCreate.agent_id = None, MemoryCreate.run_id = None,
      metadata = Some [(''topic'', JStr ''greeting'')]\<rparr> = None
   \<and> app demo_Memory (POST_memories \<lparr>messages = [\<lparr>role = ''user'', content = ''hi''\<rparr>],
      MemoryCreate.user_id = None, MemoryCreate.agent_id = None, MemoryCreate.run_id = None,
      metadata = Some [(''topic'', JStr ''greeting'')]\<rparr>) (demo_server [])
     = (Inl (HTTPException 400 ''At least one identifier is required.''),
        \<lparr>MEMORY_INSTANCE = [], calls = [], logged = []\<rparr>)
   \<and> app demo_Memory (GET_memories None None None) (demo_server [])
     = (Inl (HTTPException 400 ''At least one identifier is required.''),
        \<lparr>MEMORY_INSTANCE = [], calls = [], logged = []\<rparr>)
   \<and> app demo_Memory (DELETE_memories None None None) (demo_server [])
     = (Inl (HTTPException 400 ''At least one identifier is required.''),
        \<lparr>MEMORY_INSTANCE = [], calls = [], logged = []\<rparr>)"
  using identifier_required_before_any_call
    [of "\<lparr>messages = [\<lparr>role = ''user'', content = ''hi''\<rparr>],
      MemoryCreate.user_id = None, MemoryCreate.agent_id = None, MemoryCreate.run_id = None,
      metadata = Some [(''topic'', JStr ''greeting'')]\<rparr>" demo_Memory "demo_server []"]
  by (simp add: demo_server_def)

text \<open>
  C2: POST /search calls the client's \<open>search\<close> once, with the query and exactly the
  optional fields that are not \<open>None\<close>, each under its own name. When the call returns,
  its value is the response; the handler never answers with status 400, whatever the
  identifiers are. A request with a query alone is forwarded with no keyword besides the
  query, and the request \<open>{"query": "q", "agent_id": "a1"}\<close> is forwarded as
  \<open>search(query="q", agent_id="a1")\<close>.
\<close>

theorem search_forwards_non_null_fields:
  fixes sr :: SearchRequest
  defines "kw \<equiv>
      (case SearchRequest.user_id sr of None \<Rightarrow> [] | Some v \<Rightarrow> [(''user_id'', JStr v)]) @
      (case SearchRequest.run_id sr of None \<Rightarrow> [] | Some v \<Rightarrow> [(''run_id'', JStr v)]) @
      (case SearchRequest.agent_id sr of None \<Rightarrow> [] | Some v \<Rightarrow> [(''agent_id'', JStr v)]) @
      (case filters sr of None \<Rightarrow> [] | Some d \<Rightarrow> [(''filters'', JDict d)])"
  shows "calls (snd (app lib (POST_search sr) s)) = calls s @ [Search (query sr) kw]
       \<and> (\<forall>v. fst (dispatch lib (MEMORY_INSTANCE s) (Search (query sr) kw)) = Inr v \<longrightarrow>
              fst (app lib (POST_search sr) s) = Inr (Body v))
       \<and> (\<forall>d. fst (app lib (POST_search sr) s) \<noteq> Inl (HTTPException 400 d))
       \<and> calls (snd (app lib (POST_search \<lparr>query = q, user_id = None, run_id = None,
                                             agent_id = None, filters = None\<rparr>) s))
           = calls s @ [Search q []]
       \<and> calls (snd (app lib (POST_search \<lparr>query = ''q'', user_id = None, run_id = None,
                                             agent_id = Some ''a1'', filters = None\<rparr>) s))
           = calls s @ [Search ''q'' [(''agent_id'', JStr ''a1'')]]"
proof -
  have kw: "filter (\<lambda>(k, v). k \<noteq> ''query'' \<and> v \<noteq> JNull) (model_dump_SearchRequest sr) = kw"
    unfolding kw_def
    by (simp add: model_dump_SearchRequest_def opt_str_def opt_dict_def split: option.splits)
  have 1: "calls (snd (app lib (POST_search sr) s)) = calls s @ [Search (query sr) kw]"
    using search_memories_call(1)[of lib sr s] by (simp add: kw)
  have 2: "\<forall>v. fst (dispatch lib (MEMORY_INSTANCE s) (Search (query sr) kw)) = Inr v \<longrightarrow>
              fst (app lib (POST_search sr) s) = Inr (Body v)"
    using search_memories_call(3)[of lib s sr] by (simp add: kw)
  have 3: "\<forall>d. fst (app lib (POST_search sr) s) \<noteq> Inl (HTTPException 400 d)"
    by (simp add: search_memories_def Let_def invoke_eq split: sum.splits)
  have 4: "calls (snd (app lib (POST_search \<lparr>query = q, user_id = None, run_id = None,
                                             agent_id = None, filters = None\<rparr>) s))
           = calls s @ [Search q []]"
    by (simp add: search_memories_call(1) model_dump_SearchRequest_def opt_str_def opt_dict_def)
  have 5: "calls (snd (app lib (POST_search \<lparr>query = ''q'', user_id = None, run_id = None,
                                             agent_id = Some ''a1'', filters = None\<rparr>) s))
           = calls s @ [Search ''q'' [(''agent_id'', JStr ''a1'')]]"
    by (simp add: search_memories_call(1) model_dump_SearchRequest_def opt_str_def opt_dict_def)
  from 1 2 3 4 5 show ?thesis by blast
qed

theorem search_forwards_non_null_fields_witness:
  "app demo_Memory (POST_search \<lparr>query = ''q'', user_id = None, run_id = None,
                                  agent_id = Some ''a1'', filters = None\<rparr>) (demo_server [JStr ''m''])
     = (Inr (Body (JList [JStr ''m''])),
        \<lparr>MEMORY_INSTANCE = [JStr ''m''],
         calls = [Search ''q'' [(''agent_id'', JStr ''a1'')]], logged = []\<rparr>)
   \<and> fst (dispatch demo_Memory (MEMORY_INSTANCE (demo_server [JStr ''m'']))
            (Search ''q'' [(''agent_id'', JStr ''a1'')])) = Inr (JList [JStr ''m''])
   \<and> fst (app demo_Memory (POST_search \<lparr>query = ''q'', user_id = None, run_id = None,
            agent_id = Some ''a1'', filters = None\<rparr>) (demo_server [JStr ''m'']))
       = Inr (Body (JList [JStr ''m'']))"
proof -
  have run: "app demo_Memory (POST_search \<lparr>query = ''q'', user_id = None, run_id = None,
                                  agent_id = Some ''a1'', filters = None\<rparr>) (demo_server [JStr ''m''])
     = (Inr (Body (JList [JStr ''m''])),
        \<lparr>MEMORY_INSTANCE = [JStr ''m''],
         calls = [Search ''q'' [(''agent_id'', JStr ''a1'')]], logged = []\<rparr>)"
    by (simp add: search_memories_def invoke_def model_dump_SearchRequest_def opt_str_def
          opt_dict_def demo_Memory_def demo_server_def)
  have m: "fst (dispatch demo_Memory (MEMORY_INSTANCE (demo_server [JStr ''m'']))
            (Search ''q'' [(''agent_id'', JStr ''a1'')])) = Inr (JList [JStr ''m''])"
    by (simp add: demo_Memory_def demo_server_def)
  from search_forwards_non_null_fields
         [of demo_Memory "\<lparr>query = ''q'', user_id = None, run_id = None,
            agent_id = Some ''a1'', filters = None\<rparr>" "demo_server [JStr ''m'']"] m
  have "fst (app demo_Memory (POST_search \<lparr>query = ''q'', user_id = None, run_id = None,
            agent_id = Some ''a1'', filters = None\<rparr>) (demo_server [JStr ''m'']))
       = Inr (Body (JList [JStr ''m'']))"
    by simp
  with run m show ?thesis by blast
qed

text \<open>
  C3: each of the nine data-access endpoints makes exactly one client call, named here
  with its arguments, and when that call raises the exception \<open>e\<close> the handler raises
  \<open>HTTPException\<close> with status 500 and detail \<open>str(e)\<close>. The trace grows by that single
  call: the call is not retried. For POST /memories, GET /memories and DELETE /memories
  this is so whenever some identifier is a non-empty string, that is, whenever the
  request passes the identifier check.
\<close>

theorem backend_exception_gives_500:
  fixes lib :: "'c library" and s :: "'c server" and e :: exn
    and mc :: MemoryCreate and sr :: SearchRequest
    and u :: "string option" and r :: "string option" and a :: "string option"
  defines "answered req k \<equiv>
      calls (snd (app lib req s)) = calls s @ [k] \<and>
      (fst (dispatch lib (MEMORY_INSTANCE s) k) = Inl e \<longrightarrow>
         fst (app lib req s) = Inl (HTTPException 500 (str e)))"
  defines "ids \<equiv>
      (case u of None \<Rightarrow> [] | Some v \<Rightarrow> [(''user_id'', JStr v)]) @
      (case r of None \<Rightarrow> [] | Some v \<Rightarrow> [(''run_id'', JStr v)]) @
      (case a of None \<Rightarrow> [] | Some v \<Rightarrow> [(''agent_id'', JStr v)])"
  defines "params \<equiv>
      (case MemoryCreate.user_id mc of None \<Rightarrow> [] | Some v \<Rightarrow> [(''user_id'', JStr v)]) @
      (case MemoryCreate.agent_id mc of None \<Rightarrow> [] | Some v \<Rightarrow> [(''agent_id'', JStr v)]) @
      (case MemoryCreate.run_id mc of None \<Rightarrow> [] | Some v \<Rightarrow> [(''run_id'', JStr v)]) @
      (case metadata mc of None \<Rightarrow> [] | Some d \<Rightarrow> [(''metadata'', JDict d)])"
  defines "kwargs \<equiv>
      (case SearchRequest.user_id sr of None \<Rightarrow> [] | Some v \<Rightarrow> [(''user_id'', JStr v)]) @
      (case SearchRequest.run_id sr of None \<Rightarrow> [] | Some v \<Rightarrow> [(''run_id'', JStr v)]) @
      (case SearchRequest.agent_id sr of None \<Rightarrow> [] | Some v \<Rightarrow> [(''agent_id'', JStr v)]) @
      (case filters sr of None \<Rightarrow> [] | Some d \<Rightarrow> [(''filters'', JDict d)])"
  shows "((\<exists>v. v \<noteq> '''' \<and> Some v \<in> {MemoryCreate.user_id mc, MemoryCreate.agent_id mc,
                                         MemoryCreate.run_id mc}) \<longrightarrow>
            answered (POST_memories mc)
              (Add (map (\<lambda>m. JDict [(''role'', JStr (role m)), (''content'', JStr (content m))])
                      (messages mc)) params))
       \<and> ((\<exists>v. v \<noteq> '''' \<and> Some v \<in> {u, r, a}) \<longrightarrow>
            answered (GET_memories u r a) (Get_all ids))
       \<and> answered (GET_memory i) (Get i)
       \<and> answered (POST_search sr) (Search (query sr) kwargs)
       \<and> answered (PUT_memory i d) (Update i d)
       \<and> answered (GET_history i) (History i)
       \<and> answered (DELETE_memory i) (Delete i)
       \<and> ((\<exists>v. v \<noteq> '''' \<and> Some v \<in> {u, r, a}) \<longrightarrow>
            answered (DELETE_memories u r a) (Delete_all ids))
       \<and> answered POST_reset Reset"
proof -
  have ids: "locals_not_None u r a = ids"
    unfolding ids_def by (rule locals_not_None_cases)
  have params: "filter (\<lambda>(k, v). k \<noteq> ''messages'' \<and> v \<noteq> JNull) (model_dump_MemoryCreate mc) = params"
    unfolding params_def by (rule add_memory_params)
  have kwargs: "filter (\<lambda>(k, v). k \<noteq> ''query'' \<and> v \<noteq> JNull) (model_dump_SearchRequest sr) = kwargs"
    unfolding kwargs_def by (rule search_memories_kwargs)
  have msgs: "map model_dump_Message (messages mc) =
      map (\<lambda>m. JDict [(''role'', JStr (role m)), (''content'', JStr (content m))]) (messages mc)"
    by (simp add: model_dump_Message_def)
  have post_memories:
    "answered (POST_memories mc)
       (Add (map (\<lambda>m. JDict [(''role'', JStr (role m)), (''content'', JStr (content m))])
               (messages mc)) params)"
    if "\<exists>v. v \<noteq> '''' \<and> Some v \<in> {MemoryCreate.user_id mc, MemoryCreate.agent_id mc,
                                        MemoryCreate.run_id mc}"
  proof -
    from that
    have chk: "any_py [MemoryCreate.user_id mc, MemoryCreate.agent_id mc, MemoryCreate.run_id mc]"
      by (simp only: any_py_iff)
    note call = add_memory_call(1,2)[OF chk, unfolded params msgs]
    show ?thesis
      unfolding answered_def app.simps by (simp add: call)
  qed
  have get_memories: "answered (GET_memories u r a) (Get_all ids)"
    and delete_memories: "answered (DELETE_memories u r a) (Delete_all ids)"
    if "\<exists>v. v \<noteq> '''' \<and> Some v \<in> {u, r, a}"
  proof -
    from that have chk: "any_py [u, r, a]"
      by (simp only: any_py_iff)
    note get_all = get_all_memories_call[OF chk, unfolded ids]
    show "answered (GET_memories u r a) (Get_all ids)"
      unfolding answered_def app.simps by (simp add: get_all)
    note delete_all = delete_all_memories_call(1,2)[OF chk, unfolded ids]
    show "answered (DELETE_memories u r a) (Delete_all ids)"
      unfolding answered_def app.simps by (simp add: delete_all)
  qed
  have get_memory: "answered (GET_memory i) (Get i)"
    unfolding answered_def app.simps by (simp add: get_memory_call)
  note search = search_memories_call(1,2)[where sr = sr, unfolded kwargs]
  have post_search: "answered (POST_search sr) (Search (query sr) kwargs)"
    unfolding answered_def app.simps by (simp add: search)
  have put_memory: "answered (PUT_memory i d) (Update i d)"
    unfolding answered_def app.simps by (simp add: update_memory_call)
  have get_history: "answered (GET_history i) (History i)"
    unfolding answered_def app.simps by (simp add: memory_history_call)
  have delete_memory: "answered (DELETE_memory i) (Delete i)"
    unfolding answered_def app.simps by (simp add: delete_memory_call(1,2))
  have post_reset: "answered POST_reset Reset"
    unfolding answered_def app.simps by (simp add: reset_memory_call(1,2))
  from post_memories get_memories get_memory post_search put_memory get_history
    delete_memory delete_memories post_reset
  show ?thesis by blast
qed

theorem backend_exception_gives_500_witness:
  "app failing_Memory (POST_memories \<lparr>messages = [\<lparr>role = ''user'', content = ''hi''\<rparr>],
        MemoryCreate.user_id = Some ''u1'', MemoryCreate.agent_id = None,
        MemoryCreate.run_id = None, metadata = None\<rparr>) (demo_server [])
     = (Inl (HTTPException 500 ''connection refused''),
        \<lparr>MEMORY_INSTANCE = [],
         calls = [Add [JDict [(''role'', JStr ''user''), (''content'', JStr ''hi'')]]
                      [(''user_id'', JStr ''u1'')]],
         logged = [''Add memory failed'']\<rparr>)
   \<and> app failing_Memory (GET_memories (Some ''u1'') None None) (demo_server [])
     = (Inl (HTTPException 500 ''connection refused''),
        \<lparr>MEMORY_INSTANCE = [], calls = [Get_all [(''user_id'', JStr ''u1'')]],
         logged = [''Get all memories failed'']\<rparr>)
   \<and> app failing_Memory (GET_memory ''m1'') (demo_server [])
     = (Inl (HTTPException 500 ''connection refused''),
        \<lparr>MEMORY_INSTANCE = [], calls = [Get ''m1''], logged = [''Get memory failed'']\<rparr>)
   \<and> app failing_Memory (POST_search \<lparr>query = ''q'', user_id = None, run_id = None,
        agent_id = Some ''a1'', filters = None\<rparr>) (demo_server [])
     = (Inl (HTTPException 500 ''connection refused''),
        \<lparr>MEMORY_INSTANCE = [], calls = [Search ''q'' [(''agent_id'', JStr ''a1'')]],
         logged = [''Search failed'']\<rparr>)
   \<and> app failing_Memory (PUT_memory ''m1'' [(''text'', JStr ''new'')]) (demo_server [])
     = (Inl (HTTPException 500 ''connection refused''),
        \<lparr>MEMORY_INSTANCE = [], calls = [Update ''m1'' [(''text'', JStr ''new'')]],
         logged = [''Update memory failed'']\<rparr>)
   \<and> app failing_Memory (GET_history ''m1'') (demo_server [])
     = (Inl (HTTPException 500 ''connection refused''),
        \<lparr>MEMORY_INSTANCE = [], calls = [History ''m1''], logged = [''Memory history failed'']\<rparr>)
   \<and> app failing_Memory (DELETE_memory ''m1'') (demo_server [])
     = (Inl (HTTPException 500 ''connection refused''),
        \<lparr>MEMORY_INSTANCE = [], calls = [Delete ''m1''], logged = [''Delete memory failed'']\<rparr>)
   \<and> app failing_Memory (DELETE_memories (Some ''u1'') None None) (demo_server [])
     = (Inl (HTTPException 500 ''connection refused''),
        \<lparr>MEMORY_INSTANCE = [], calls = [Delete_all [(''user_id'', JStr ''u1'')]],
         logged = [''Delete all memories failed'']\<rparr>)
   \<and> app failing_Memory POST_reset (demo_server [])
     = (Inl (HTTPException 500 ''connection refused''),
        \<lparr>MEMORY_INSTANCE = [], calls = [Reset], logged = [''Reset failed'']\<rparr>)"
proof -
  let ?s = "demo_server []"
  let ?mc = "\<lparr>messages = [\<lparr>role = ''user'', content = ''hi''\<rparr>],
        MemoryCreate.user_id = Some ''u1'', MemoryCreate.agent_id = None,
        MemoryCreate.run_id = None, metadata = None\<rparr>"
  let ?sr = "\<lparr>query = ''q'', user_id = None, run_id = None,
        agent_id = Some ''a1'', filters = None\<rparr>"
  let ?d = "[(''text'', JStr ''new'')]"
  have raises: "fst (dispatch failing_Memory (MEMORY_INSTANCE ?s) k) = Inl (Exception ''connection refused'')"
    for k
    by (simp add: failing_Memory_def)
  have rest: "snd (app failing_Memory (POST_memories ?mc) ?s)
       = \<lparr>MEMORY_INSTANCE = [],
          calls = [Add [JDict [(''role'', JStr ''user''), (''content'', JStr ''hi'')]]
                       [(''user_id'', JStr ''u1'')]],
          logged = [''Add memory failed'']\<rparr>"
    "snd (app failing_Memory (GET_memories (Some ''u1'') None None) ?s)
       = \<lparr>MEMORY_INSTANCE = [], calls = [Get_all [(''user_id'', JStr ''u1'')]],
          logged = [''Get all memories failed'']\<rparr>"
    "snd (app failing_Memory (GET_memory ''m1'') ?s)
       = \<lparr>MEMORY_INSTANCE = [], calls = [Get ''m1''], logged = [''Get memory failed'']\<rparr>"
    "snd (app failing_Memory (POST_search ?sr) ?s)
       = \<lparr>MEMORY_INSTANCE = [], calls = [Search ''q'' [(''agent_id'', JStr ''a1'')]],
          logged = [''Search failed'']\<rparr>"
    "snd (app failing_Memory (PUT_memory ''m1'' ?d) ?s)
       = \<lparr>MEMORY_INSTANCE = [], calls = [Update ''m1'' ?d], logged = [''Update memory failed'']\<rparr>"
    "snd (app failing_Memory (GET_history ''m1'') ?s)
       = \<lparr>MEMORY_INSTANCE = [], calls = [History ''m1''], logged = [''Memory history failed'']\<rparr>"
    "snd (app failing_Memory (DELETE_memory ''m1'') ?s)
       = \<lparr>MEMORY_INSTANCE = [], calls = [Delete ''m1''], logged = [''Delete memory failed'']\<rparr>"
    "snd (app failing_Memory (DELETE_memories (Some ''u1'') None None) ?s)
       = \<lparr>MEMORY_INSTANCE = [], calls = [Delete_all [(''user_id'', JStr ''u1'')]],
          logged = [''Delete all memories failed'']\<rparr>"
    "snd (app failing_Memory POST_reset ?s)
       = \<lparr>MEMORY_INSTANCE = [], calls = [Reset], logged = [''Reset failed'']\<rparr>"
    by (simp_all add: add_memory_def get_all_memories_def get_memory_def search_memories_def
          update_memory_def memory_history_def delete_memory_def delete_all_memories_def
          reset_memory_def invoke_def logging_exception_def truthy_def locals_not_None_def
          model_dump_MemoryCreate_def model_dump_SearchRequest_def model_dump_Message_def
          opt_str_def opt_dict_def failing_Memory_def demo_server_def)
  have ident: "\<exists>v. v \<noteq> '''' \<and> Some v \<in> {Some ''u1'', None, None}"
    by simp
  from backend_exception_gives_500
         [where lib = failing_Memory and s = ?s and e = "Exception ''connection refused''"
            and mc = ?mc and sr = ?sr and u = "Some ''u1''" and r = None and a = None
            and i = "''m1''" and d = ?d]
       raises ident
  have "fst (app failing_Memory (POST_memories ?mc) ?s) = Inl (HTTPException 500 ''connection refused'')"
    and "fst (app failing_Memory (GET_memories (Some ''u1'') None None) ?s)
           = Inl (HTTPException 500 ''connection refused'')"
    and "fst (app failing_Memory (GET_memory ''m1'') ?s) = Inl (HTTPException 500 ''connection refused'')"
    and "fst (app failing_Memory (POST_search ?sr) ?s) = Inl (HTTPException 500 ''connection refused'')"
    and "fst (app failing_Memory (PUT_memory ''m1'' ?d) ?s) = Inl (HTTPException 500 ''connection refused'')"
    and "fst (app failing_Memory (GET_history ''m1'') ?s) = Inl (HTTPException 500 ''connection refused'')"
    and "fst (app failing_Memory (DELETE_memory ''m1'') ?s) = Inl (HTTPException 500 ''connection refused'')"
    and "fst (app failing_Memory (DELETE_memories (Some ''u1'') None None) ?s)
           = Inl (HTTPException 500 ''connection refused'')"
    and "fst (app failing_Memory POST_reset ?s) = Inl (HTTPException 500 ''connection refused'')"
    by simp_all
  with rest show ?thesis
    by (simp add: prod_eq_iff)
qed

text \<open>
  C4, as amended: for the body
  \<open>{"messages": [{"role": "user", "content": "hi"}], "user_id": "u1"}\<close> POST /memories makes
  the one client call \<open>add(messages=[{"role": "user", "content": "hi"}], user_id="u1")\<close>,
  with no keyword for the fields that are \<open>None\<close>. When the call returns a value that
  \<open>JSONResponse\<close> can render, the handler returns that value in a \<open>JSONResponse\<close>; when the
  rendering of the returned value raises \<open>e\<close>, the handler raises \<open>HTTPException\<close> with
  status 500 and detail \<open>str(e)\<close>.
\<close>

theorem add_memory_forwards_messages_and_user_id:
  fixes mc :: MemoryCreate
  defines "mc \<equiv> \<lparr>messages = [\<lparr>role = ''user'', content = ''hi''\<rparr>],
                  MemoryCreate.user_id = Some ''u1'', MemoryCreate.agent_id = None,
                  MemoryCreate.run_id = None, metadata = None\<rparr>"
  defines "k \<equiv> Add [JDict [(''role'', JStr ''user''), (''content'', JStr ''hi'')]]
                   [(''user_id'', JStr ''u1'')]"
  shows "calls (snd (app lib (POST_memories mc) s)) = calls s @ [k]
       \<and> (\<forall>v. fst (dispatch lib (MEMORY_INSTANCE s) k) = Inr v \<and> render_failure lib v = None \<longrightarrow>
              fst (app lib (POST_memories mc) s) = Inr (JSONResponse v))
       \<and> (\<forall>v e. fst (dispatch lib (MEMORY_INSTANCE s) k) = Inr v \<and> render_failure lib v = Some e \<longrightarrow>
              fst (app lib (POST_memories mc) s) = Inl (HTTPException 500 (str e)))"
proof -
  have ids: "any_py [MemoryCreate.user_id mc, MemoryCreate.agent_id mc, MemoryCreate.run_id mc]"
    by (simp add: mc_def truthy_def)
  have k: "Add (map model_dump_Message (messages mc))
             (filter (\<lambda>(k, v). k \<noteq> ''messages'' \<and> v \<noteq> JNull) (model_dump_MemoryCreate mc)) = k"
    by (simp add: mc_def k_def model_dump_MemoryCreate_def model_dump_Message_def
          opt_str_def opt_dict_def)
  note call = add_memory_call(1,3,4)[OF ids, unfolded k]
  show ?thesis
    unfolding app.simps by (simp add: call)
qed

theorem add_memory_forwards_messages_and_user_id_witness:
  "fst (dispatch demo_Memory (MEMORY_INSTANCE (demo_server []))
          (Add [JDict [(''role'', JStr ''user''), (''content'', JStr ''hi'')]]
               [(''user_id'', JStr ''u1'')]))
     = Inr (JDict [(''results'', JList [JDict [(''role'', JStr ''user''), (''content'', JStr ''hi'')]])])
   \<and> render_failure demo_Memory
       (JDict [(''results'', JList [JDict [(''role'', JStr ''user''), (''content'', JStr ''hi'')]])])
     = None
   \<and> fst (app demo_Memory (POST_memories \<lparr>messages = [\<lparr>role = ''user'', content = ''hi''\<rparr>],
                  MemoryCreate.user_id = Some ''u1'', MemoryCreate.agent_id = None,
                  MemoryCreate.run_id = None, metadata = None\<rparr>) (demo_server []))
     = Inr (JSONResponse
         (JDict [(''results'', JList [JDict [(''role'', JStr ''user''), (''content'', JStr ''hi'')]])]))
   \<and> calls (snd (app demo_Memory (POST_memories \<lparr>messages = [\<lparr>role = ''user'', content = ''hi''\<rparr>],
                  MemoryCreate.user_id = Some ''u1'', MemoryCreate.agent_id = None,
                  MemoryCreate.run_id = None, metadata = None\<rparr>) (demo_server [])))
     = [Add [JDict [(''role'', JStr ''user''), (''content'', JStr ''hi'')]]
            [(''user_id'', JStr ''u1'')]]
   \<and> render_failure nesting_Memory (nest 1000)
     = Some (Exception ''maximum recursion depth exceeded while encoding a JSON object'')
   \<and> fst (app nesting_Memory (POST_memories \<lparr>messages = [\<lparr>role = ''user'', content = ''hi''\<rparr>],
                  MemoryCreate.user_id = Some ''u1'', MemoryCreate.agent_id = None,
                  MemoryCreate.run_id = None, metadata = None\<rparr>) (demo_server []))
     = Inl (HTTPException 500 ''maximum recursion depth exceeded while encoding a JSON object'')"
proof -
  have m: "fst (dispatch demo_Memory (MEMORY_INSTANCE (demo_server []))
          (Add [JDict [(''role'', JStr ''user''), (''content'', JStr ''hi'')]]
               [(''user_id'', JStr ''u1'')]))
     = Inr (JDict [(''results'', JList [JDict [(''role'', JStr ''user''), (''content'', JStr ''hi'')]])])"
    by (simp add: demo_Memory_def demo_server_def)
  have r: "render_failure demo_Memory
       (JDict [(''results'', JList [JDict [(''role'', JStr ''user''), (''content'', JStr ''hi'')]])])
     = None"
    by (simp add: demo_Memory_def demo_render_failure_def)
  have c: "calls (demo_server []) = []"
    by (simp add: demo_server_def)
  have m': "fst (dispatch nesting_Memory (MEMORY_INSTANCE (demo_server []))
          (Add [JDict [(''role'', JStr ''user''), (''content'', JStr ''hi'')]]
               [(''user_id'', JStr ''u1'')])) = Inr (nest 1000)"
    by (simp add: nesting_Memory_def)
  have r': "render_failure nesting_Memory (nest 1000)
     = Some (Exception ''maximum recursion depth exceeded while encoding a JSON object'')"
    by (simp add: nesting_Memory_def demo_render_failure_def depth_nest)
  from add_memory_forwards_messages_and_user_id[of demo_Memory "demo_server []"] m r c
       add_memory_forwards_messages_and_user_id[of nesting_Memory "demo_server []"] m' r'
  show ?thesis by simp
qed

text \<open>
  The claim as it was stated, that the handler returns the result of the \<open>add\<close> call as
  the JSON body, fails for a result that cannot be rendered: the client returns a list
  nested 1000 levels deep, and the handler answers with status 500.
\<close>

theorem add_memory_unrenderable_result_counterexample:
  "fst (dispatch nesting_Memory (MEMORY_INSTANCE (demo_server []))
          (Add [JDict [(''role'', JStr ''user''), (''content'', JStr ''hi'')]]
               [(''user_id'', JStr ''u1'')])) = Inr (nest 1000)
   \<and> app nesting_Memory (POST_memories \<lparr>messages = [\<lparr>role = ''user'', content = ''hi''\<rparr>],
                  MemoryCreate.user_id = Some ''u1'', MemoryCreate.agent_id = None,
                  MemoryCreate.run_id = None, metadata = None\<rparr>) (demo_server [])
     = (Inl (HTTPException 500 ''maximum recursion depth exceeded while encoding a JSON object''),
        \<lparr>MEMORY_INSTANCE = [],
         calls = [Add [JDict [(''role'', JStr ''user''), (''content'', JStr ''hi'')]]
                      [(''user_id'', JStr ''u1'')]],
         logged = [''Add memory failed'']\<rparr>)
   \<and> fst (app nesting_Memory (POST_memories \<lparr>messages = [\<lparr>role = ''user'', content = ''hi''\<rparr>],
                  MemoryCreate.user_id = Some ''u1'', MemoryCreate.agent_id = None,
                  MemoryCreate.run_id = None, metadata = None\<rparr>) (demo_server []))
     \<noteq> Inr (JSONResponse (nest 1000))"
  by (simp add: add_memory_def invoke_def logging_exception_def truthy_def
        model_dump_MemoryCreate_def model_dump_Message_def opt_str_def opt_dict_def
        nesting_Memory_def demo_render_failure_def depth_nest demo_server_def)

text \<open>
  C5: when \<open>Memory.from_config\<close> returns a client for the configuration, POST /configure
  returns \<open>{"message": "Configuration set successfully"}\<close> and the global
  \<open>MEMORY_INSTANCE\<close> is that client, whatever client was there before; the next request
  on any endpoint runs against the new client.
\<close>

theorem set_config_replaces_client:
  assumes "from_config lib config = Inr c"
  shows "app lib (POST_configure config) s =
           (Inr (Body (JDict [(''message'', JStr ''Configuration set successfully'')])),
            s\<lparr>MEMORY_INSTANCE := c\<rparr>)
       \<and> (\<forall>old. snd (app lib (POST_configure config) (s\<lparr>MEMORY_INSTANCE := old\<rparr>))
                  = s\<lparr>MEMORY_INSTANCE := c\<rparr>)
       \<and> (\<forall>req. app lib req (snd (app lib (POST_configure config) s))
                  = app lib req (s\<lparr>MEMORY_INSTANCE := c\<rparr>))
       \<and> (\<forall>k. fst (invoke lib k (snd (app lib (POST_configure config) s)))
                  = fst (dispatch lib c k))"
  using assms by (simp add: set_config_def message_def invoke_eq)

theorem set_config_replaces_client_witness:
  "from_config demo_Memory [(''version'', JStr ''v1.1'')] = Inr []
   \<and> app demo_Memory (POST_configure [(''version'', JStr ''v1.1'')]) (demo_server [JStr ''m''])
     = (Inr (Body (JDict [(''message'', JStr ''Configuration set successfully'')])),
        \<lparr>MEMORY_INSTANCE = [], calls = [], logged = []\<rparr>)"
proof -
  have f: "from_config demo_Memory [(''version'', JStr ''v1.1'')] = Inr []"
    by (simp add: demo_Memory_def demo_from_config_def)
  from set_config_replaces_client
         [OF f, of "demo_server [JStr ''m'']"] f
  show ?thesis by (simp add: demo_server_def)
qed

text \<open>
  C6: when \<open>Memory.from_config\<close> raises, the exception leaves the handler of
  POST /configure as it is: it is neither turned into an \<open>HTTPException\<close> of any
  status nor logged.
\<close>

theorem set_config_failure_propagates:
  assumes "from_config lib config = Inl e"
  shows "fst (app lib (POST_configure config) s) = Inl (Uncaught e)
       \<and> (\<forall>code d. fst (app lib (POST_configure config) s) \<noteq> Inl (HTTPException code d))
       \<and> logged (snd (app lib (POST_configure config) s)) = logged s"
  using assms by (simp add: set_config_def)

theorem set_config_failure_propagates_witness:
  "from_config demo_Memory [] = Inl (Exception ''empty configuration'')
   \<and> fst (app demo_Memory (POST_configure []) (demo_server [JStr ''m'']))
       = Inl (Uncaught (Exception ''empty configuration''))"
proof -
  have f: "from_config demo_Memory [] = Inl (Exception ''empty configuration'')"
    by (simp add: demo_Memory_def demo_from_config_def)
  from set_config_failure_propagates[OF f, of "demo_server [JStr ''m'']"] f
  show ?thesis by simp
qed

text \<open>
  C7: when the client call of DELETE /memories/{memory_id}, DELETE /memories or POST /reset
  is made and returns a value, the response is the fixed confirmation message of the
  endpoint, whatever the value returned by the client.
\<close>

theorem confirmation_messages:
  "(calls (snd (app lib (DELETE_memory memory_id) s)) = calls s @ [k1] \<and>
    fst (dispatch lib (MEMORY_INSTANCE s) k1) = Inr v1 \<longrightarrow>
      fst (app lib (DELETE_memory memory_id) s)
        = Inr (Body (JDict [(''message'', JStr ''Memory deleted successfully'')])))
   \<and> (calls (snd (app lib (DELETE_memories u r a) s)) = calls s @ [k2] \<and>
      fst (dispatch lib (MEMORY_INSTANCE s) k2) = Inr v2 \<longrightarrow>
      fst (app lib (DELETE_memories u r a) s)
        = Inr (Body (JDict [(''message'', JStr ''All relevant memories deleted'')])))
   \<and> (calls (snd (app lib POST_reset s)) = calls s @ [k3] \<and>
      fst (dispatch lib (MEMORY_INSTANCE s) k3) = Inr v3 \<longrightarrow>
      fst (app lib POST_reset s)
        = Inr (Body (JDict [(''message'', JStr ''All memories reset'')])))"
proof -
  have 1: "calls (snd (app lib (DELETE_memory memory_id) s)) = calls s @ [k1] \<and>
    fst (dispatch lib (MEMORY_INSTANCE s) k1) = Inr v1 \<longrightarrow>
      fst (app lib (DELETE_memory memory_id) s)
        = Inr (Body (JDict [(''message'', JStr ''Memory deleted successfully'')]))"
    using delete_memory_call(3)[of lib s memory_id v1]
    by (auto simp: delete_memory_call(1) message_def)
  have 2: "calls (snd (app lib (DELETE_memories u r a) s)) = calls s @ [k2] \<and>
      fst (dispatch lib (MEMORY_INSTANCE s) k2) = Inr v2 \<longrightarrow>
      fst (app lib (DELETE_memories u r a) s)
        = Inr (Body (JDict [(''message'', JStr ''All relevant memories deleted'')]))"
  proof (cases "any_py [u, r, a]")
    case True
    from delete_all_memories_call(1,3)[OF True, of lib s] show ?thesis
      by (auto simp: message_def)
  next
    case False
    then show ?thesis by (simp add: delete_all_memories_refused)
  qed
  have 3: "calls (snd (app lib POST_reset s)) = calls s @ [k3] \<and>
      fst (dispatch lib (MEMORY_INSTANCE s) k3) = Inr v3 \<longrightarrow>
      fst (app lib POST_reset s)
        = Inr (Body (JDict [(''message'', JStr ''All memories reset'')]))"
    using reset_memory_call(3)[of lib s v3]
    by (auto simp: reset_memory_call(1) message_def)
  from 1 2 3 show ?thesis by blast
qed

theorem confirmation_messages_witness:
  "fst (dispatch demo_Memory (MEMORY_INSTANCE (demo_server [JStr ''m''])) (Delete ''m1'')) = Inr (JStr ''m1'')
   \<and> app demo_Memory (DELETE_memory ''m1'') (demo_server [JStr ''m''])
       = (Inr (Body (JDict [(''message'', JStr ''Memory deleted successfully'')])),
          \<lparr>MEMORY_INSTANCE = [], calls = [Delete ''m1''], logged = []\<rparr>)
   \<and> fst (dispatch demo_Memory (MEMORY_INSTANCE (demo_server [JStr ''m'']))
            (Delete_all [(''user_id'', JStr ''u1'')])) = Inr (JInt 1)
   \<and> app demo_Memory (DELETE_memories (Some ''u1'') None None) (demo_server [JStr ''m''])
       = (Inr (Body (JDict [(''message'', JStr ''All relevant memories deleted'')])),
          \<lparr>MEMORY_INSTANCE = [], calls = [Delete_all [(''user_id'', JStr ''u1'')]], logged = []\<rparr>)
   \<and> fst (dispatch demo_Memory (MEMORY_INSTANCE (demo_server [JStr ''m''])) Reset) = Inr JNull
   \<and> app demo_Memory POST_reset (demo_server [JStr ''m''])
       = (Inr (Body (JDict [(''message'', JStr ''All memories reset'')])),
          \<lparr>MEMORY_INSTANCE = [], calls = [Reset], logged = []\<rparr>)"
proof -
  let ?s = "demo_server [JStr ''m'']"
  have m1: "fst (dispatch demo_Memory (MEMORY_INSTANCE ?s) (Delete ''m1'')) = Inr (JStr ''m1'')"
    and m2: "fst (dispatch demo_Memory (MEMORY_INSTANCE ?s) (Delete_all [(''user_id'', JStr ''u1'')]))
              = Inr (JInt 1)"
    and m3: "fst (dispatch demo_Memory (MEMORY_INSTANCE ?s) Reset) = Inr JNull"
    by (simp_all add: demo_Memory_def demo_server_def)
  have s1: "snd (app demo_Memory (DELETE_memory ''m1'') ?s)
              = \<lparr>MEMORY_INSTANCE = [], calls = [Delete ''m1''], logged = []\<rparr>"
    by (simp add: delete_memory_def invoke_def demo_Memory_def demo_server_def)
  have s2: "snd (app demo_Memory (DELETE_memories (Some ''u1'') None None) ?s)
              = \<lparr>MEMORY_INSTANCE = [], calls = [Delete_all [(''user_id'', JStr ''u1'')]], logged = []\<rparr>"
    by (simp add: delete_all_memories_def invoke_def truthy_def locals_not_None_def opt_str_def
          demo_Memory_def demo_server_def)
  have s3: "snd (app demo_Memory POST_reset ?s) = \<lparr>MEMORY_INSTANCE = [], calls = [Reset], logged = []\<rparr>"
    by (simp add: reset_memory_def invoke_def demo_Memory_def demo_server_def)
  have c: "calls ?s = []"
    by (simp add: demo_server_def)
  from confirmation_messages
         [of demo_Memory "''m1''" ?s "Delete ''m1''" "JStr ''m1''"
             "Some ''u1''" None None "Delete_all [(''user_id'', JStr ''u1'')]" "JInt 1"
             Reset JNull]
       m1 m2 m3 s1 s2 s3 c
  have "fst (app demo_Memory (DELETE_memory ''m1'') ?s)
          = Inr (Body (JDict [(''message'', JStr ''Memory deleted successfully'')]))"
    and "fst (app demo_Memory (DELETE_memories (Some ''u1'') None None) ?s)
          = Inr (Body (JDict [(''message'', JStr ''All relevant memories deleted'')]))"
    and "fst (app demo_Memory POST_reset ?s)
          = Inr (Body (JDict [(''message'', JStr ''All memories reset'')]))"
    by simp_all
  with m1 m2 m3 s1 s2 s3 show ?thesis
    by (simp add: prod_eq_iff)
qed

text \<open>
  C8: every GET / request returns a redirect response to the documentation path /docs,
  not a JSON body, and leaves the process state as it was.
\<close>

theorem home_redirects_to_docs:
  "app lib GET_root s = (Inr (RedirectResponse ''/docs''), s)
   \<and> (\<forall>v. fst (app lib GET_root s) \<noteq> Inr (Body v) \<and> fst (app lib GET_root s) \<noteq> Inr (JSONResponse v))"
  by (simp add: home_def)

text \<open>
  C9: the identifier check tests truthiness. When each of \<open>user_id\<close>, \<open>agent_id\<close>
  and \<open>run_id\<close> is absent or the empty string, POST /memories, GET /memories and
  DELETE /memories raise the 400 error ``At least one identifier is required.'' and
  the client is not called, also when an identifier is present in the request.
\<close>

theorem empty_identifiers_are_refused:
  assumes "u \<in> {None, Some ''''}" and "a \<in> {None, Some ''''}" and "r \<in> {None, Some ''''}"
    and "MemoryCreate.user_id mc = u \<and> MemoryCreate.agent_id mc = a \<and> MemoryCreate.run_id mc = r"
  shows "app lib (POST_memories mc) s =
           (Inl (HTTPException 400 ''At least one identifier is required.''), s)
       \<and> app lib (GET_memories u r a) s =
           (Inl (HTTPException 400 ''At least one identifier is required.''), s)
       \<and> app lib (DELETE_memories u r a) s =
           (Inl (HTTPException 400 ''At least one identifier is required.''), s)"
proof -
  from assms(1-3) have "\<not> truthy u" "\<not> truthy a" "\<not> truthy r"
    by (auto simp: truthy_def)
  with assms(4) show ?thesis
    by (simp add: add_memory_def get_all_memories_def delete_all_memories_def
          identifier_required_def)
qed

theorem empty_identifiers_are_refused_witness:
  "Some '''' \<in> {None, Some ''''} \<and> None \<in> {None, Some ''''}
   \<and> app demo_Memory (POST_memories \<lparr>messages = [\<lparr>role = ''user'', content = ''hi''\<rparr>],
      MemoryCreate.user_id = Some '''', MemoryCreate.agent_id = None, MemoryCreate.run_id = None,
      metadata = None\<rparr>) (demo_server [])
     = (Inl (HTTPException 400 ''At least one identifier is required.''),
        \<lparr>MEMORY_INSTANCE = [], calls = [], logged = []\<rparr>)
   \<and> app demo_Memory (GET_memories (Some '''') None None) (demo_server [])
     = (Inl (HTTPException 400 ''At least one identifier is required.''),
        \<lparr>MEMORY_INSTANCE = [], calls = [], logged = []\<rparr>)
   \<and> app demo_Memory (DELETE_memories (Some '''') None None) (demo_server [])
     = (Inl (HTTPException 400 ''At least one identifier is required.''),
        \<lparr>MEMORY_INSTANCE = [], calls = [], logged = []\<rparr>)"
  using empty_identifiers_are_refused
    [of "Some ''''" None None "\<lparr>messages = [\<lparr>role = ''user'', content = ''hi''\<rparr>],
      MemoryCreate.user_id = Some '''', MemoryCreate.agent_id = None, MemoryCreate.run_id = None,
      metadata = None\<rparr>" demo_Memory "demo_server []"]
  by (simp add: demo_server_def)

text \<open>
  C10: when \<open>Memory.from_config\<close> raises, POST /configure leaves the state of the
  process as it was; \<open>MEMORY_INSTANCE\<close> is still the earlier client, and every later
  request is served as it would have been without the failed reconfiguration.
\<close>

theorem set_config_failure_keeps_client:
  assumes "from_config lib config = Inl e"
  shows "snd (app lib (POST_configure config) s) = s
       \<and> MEMORY_INSTANCE (snd (app lib (POST_configure config) s)) = MEMORY_INSTANCE s
       \<and> (\<forall>req. app lib req (snd (app lib (POST_configure config) s)) = app lib req s)"
  using assms by (simp add: set_config_def)

theorem set_config_failure_keeps_client_witness:
  "from_config demo_Memory [] = Inl (Exception ''empty configuration'')
   \<and> snd (app demo_Memory (POST_configure []) (demo_server [JStr ''m'']))
       = \<lparr>MEMORY_INSTANCE = [JStr ''m''], calls = [], logged = []\<rparr>"
proof -
  have f: "from_config demo_Memory [] = Inl (Exception ''empty configuration'')"
    by (simp add: demo_Memory_def demo_from_config_def)
  from set_config_failure_keeps_client[OF f, of "demo_server [JStr ''m'']"] f
  show ?thesis by (simp add: demo_server_def)
qed

end
